theory Spec2Isabelle
  imports Main "HOL-Library.Word"
begin

section \<open>ntl::WmiService: the data model\<close>

text \<open>
  The class \<open>ntl::WmiService\<close> (ntlWmiService.hpp) owns a COM locator and a COM
  connection to a WMI namespace, configures the security blanket of the connection
  proxy, and deletes one WMI object with a submit / wait protocol.

  Everything the class does goes through native COM calls. The model threads an
  explicit \<open>world\<close> through every operation (COM reference counts, the thread's
  COM initialisation count, and the log of native calls made so far), and takes the
  answers of the operating system as a parameter \<open>natives\<close>: each native call is a
  function of the world in which it is made, so the same call may answer differently
  at different times.
\<close>

subsection \<open>Native types and constants (Windows SDK)\<close>

type_synonym HRESULT = "32 word"

text \<open>winerror.h: \<^verbatim>\<open>#define FAILED(hr) (((HRESULT)(hr)) < 0)\<close>, HRESULT a signed 32-bit integer.\<close>

definition FAILED :: "HRESULT \<Rightarrow> bool" where
  "FAILED hr = (sint hr < 0)"

text \<open>An interface pointer: \<open>None\<close> is \<open>nullptr\<close>, \<open>Some a\<close> the native object at address \<open>a\<close>.\<close>

type_synonym ptr = "nat option"

text \<open>The arguments of \<open>CoSetProxyBlanket\<close> after the proxy, with the SDK's enumerations.\<close>

datatype authn_service = RPC_C_AUTHN_NONE | RPC_C_AUTHN_WINNT | RPC_C_AUTHN_GSS_KERBEROS | RPC_C_AUTHN_DEFAULT

datatype authz_service = RPC_C_AUTHZ_NONE | RPC_C_AUTHZ_NAME | RPC_C_AUTHZ_DCE | RPC_C_AUTHZ_DEFAULT

datatype authn_level =
    RPC_C_AUTHN_LEVEL_DEFAULT | RPC_C_AUTHN_LEVEL_NONE | RPC_C_AUTHN_LEVEL_CONNECT
  | RPC_C_AUTHN_LEVEL_CALL | RPC_C_AUTHN_LEVEL_PKT | RPC_C_AUTHN_LEVEL_PKT_INTEGRITY
  | RPC_C_AUTHN_LEVEL_PKT_PRIVACY

datatype imp_level =
    RPC_C_IMP_LEVEL_DEFAULT | RPC_C_IMP_LEVEL_ANONYMOUS | RPC_C_IMP_LEVEL_IDENTIFY
  | RPC_C_IMP_LEVEL_IMPERSONATE | RPC_C_IMP_LEVEL_DELEGATE

datatype capabilities = EOAC_NONE | EOAC_MUTUAL_AUTH | EOAC_STATIC_CLOAKING | EOAC_DYNAMIC_CLOAKING | EOAC_DEFAULT

record proxy_blanket =
  dwAuthnSvc :: authn_service
  dwAuthzSvc :: authz_service
  pServerPrincName :: "string option"
  dwAuthnLevel :: authn_level
  dwImpLevel :: imp_level
  pAuthInfo :: ptr
  dwCapabilities :: capabilities

text \<open>The arguments of \<open>IWbemLocator::ConnectServer\<close> before the out-parameter.\<close>

record connect_args =
  strNetworkResource :: string
  strUser :: "string option"
  strPassword :: "string option"
  strLocale :: "string option"
  lSecurityFlags :: nat
  strAuthority :: "string option"
  pCtx :: ptr

datatype wbem_flag = WBEM_FLAG_RETURN_WBEM_COMPLETE | WBEM_FLAG_RETURN_IMMEDIATELY

datatype wbem_timeout = WBEM_NO_WAIT | WBEM_INFINITE | Milliseconds nat

subsection \<open>The world\<close>

text \<open>One entry of the log for every native call the source makes, with its arguments.\<close>

datatype native_call =
    Call_createInstance
  | Call_ConnectServer ptr connect_args
  | Call_CoSetProxyBlanket ptr proxy_blanket
  | Call_DeleteInstance ptr string wbem_flag ptr
  | Call_GetCallStatus ptr wbem_timeout

record world =
  refs :: "nat \<Rightarrow> nat"
  com_inits :: nat
  guards_made :: nat
  calls :: "(native_call \<times> HRESULT) list"

text \<open>
  The answers of the operating system. An out-parameter is the second component of the
  answer; \<open>GetCallStatus\<close> answers its own HRESULT and the status of the call it waits for.
\<close>

record natives =
  CoInitializeEx :: "world \<Rightarrow> HRESULT"
  CoCreateInstance :: "world \<Rightarrow> HRESULT \<times> nat"
  ConnectServer :: "world \<Rightarrow> ptr \<Rightarrow> connect_args \<Rightarrow> HRESULT \<times> ptr"
  CoSetProxyBlanket :: "world \<Rightarrow> ptr \<Rightarrow> proxy_blanket \<Rightarrow> HRESULT"
  DeleteInstance :: "world \<Rightarrow> ptr \<Rightarrow> string \<Rightarrow> wbem_flag \<Rightarrow> ptr \<Rightarrow> HRESULT \<times> ptr"
  GetCallStatus :: "world \<Rightarrow> ptr \<Rightarrow> wbem_timeout \<Rightarrow> HRESULT \<times> HRESULT"

definition logged :: "native_call \<Rightarrow> HRESULT \<Rightarrow> world \<Rightarrow> world" where
  "logged c hr w = w\<lparr>calls := calls w @ [(c, hr)]\<rparr>"

subsection \<open>Failures\<close>

text \<open>
  \<open>Exception\<close> and \<open>WmiException\<close> carry the four constructor arguments of the throw
  sites of the source: the native status code, the name of the failing native
  operation, the name of the local operation, and the boolean flag.

  Modelled from the spec: the failures of the helper classes of ntlComInitialize.hpp, which
  ntlWmiService.hpp includes: \<open>SubsystemInitError\<close> is what the
  construction of the \<open>ntl::ComInitialize\<close> guard raises (spec 4.1), and
  \<open>LocatorCreateError\<close> is the \<open>ConnectionError\<close> of stage "locator-create" that
  \<open>ntl::ComPtr::createInstance\<close> raises (spec 4.2).

  \<open>NullDereference\<close> is not a C++ exception: it is the fault of calling through a null
  interface pointer (\<open>this->wbemServices->...\<close>, \<open>result->...\<close>).
\<close>

datatype exn =
    Exception HRESULT string string bool
  | WmiException HRESULT string string bool
  | SubsystemInitError HRESULT
  | LocatorCreateError HRESULT
  | NullDereference

subsection \<open>The helper classes\<close>

text \<open>
  Modelled from the spec: \<open>ntl::ComInitialize\<close>, the per-thread subsystem guard (spec 4.1:
  "construction performs idempotent, reference-counted initialization tied to the current
  thread; destruction decrements the reference count and tears down only at zero",
  "construction fails with SubsystemInitError if the underlying initialization cannot be
  established"). While a guard is alive on the thread another one is always granted;
  otherwise the operating system decides. Every guard object has its own serial number,
  which stands for the identity of the C++ member object.
\<close>

record ComInitialize =
  serial :: nat

definition ComInitialize_ctor :: "natives \<Rightarrow> world \<Rightarrow> (exn + ComInitialize) \<times> world" where
  "ComInitialize_ctor n w =
     (if com_inits w = 0 \<and> FAILED (CoInitializeEx n w)
      then (Inl (SubsystemInitError (CoInitializeEx n w)), w)
      else (Inr \<lparr>serial = guards_made w\<rparr>,
            w\<lparr>com_inits := com_inits w + 1, guards_made := guards_made w + 1\<rparr>))"

definition ComInitialize_dtor :: "world \<Rightarrow> world" where
  "ComInitialize_dtor w = w\<lparr>com_inits := com_inits w - 1\<rparr>"

text \<open>
  Modelled from the spec: \<open>ntl::ComPtr\<close>, shared ownership of a reference-counted native
  resource (spec 9: "copy increments, destroy decrements"). A pointer received from a
  native call carries one reference.
\<close>

definition AddRef :: "ptr \<Rightarrow> world \<Rightarrow> world" where
  "AddRef p w = (case p of None \<Rightarrow> w | Some a \<Rightarrow> w\<lparr>refs := (refs w)(a := refs w a + 1)\<rparr>)"

definition Release :: "ptr \<Rightarrow> world \<Rightarrow> world" where
  "Release p w = (case p of None \<Rightarrow> w | Some a \<Rightarrow> w\<lparr>refs := (refs w)(a := refs w a - 1)\<rparr>)"

definition createInstance :: "natives \<Rightarrow> world \<Rightarrow> (exn + nat) \<times> world" where
  "createInstance n w =
     (case CoCreateInstance n w of (hr, a) \<Rightarrow>
        if FAILED hr then (Inl (LocatorCreateError hr), logged Call_createInstance hr w)
        else (Inr a, AddRef (Some a) (logged Call_createInstance hr w)))"

section \<open>class WmiService\<close>

text \<open>The three private members, in declaration order.\<close>

record WmiService =
  coinit :: ComInitialize
  wbemLocator :: ptr
  wbemServices :: ptr

text \<open>
  The destructor has an empty body: the members are destroyed in reverse declaration
  order. The same releases happen when the constructor throws after all three members
  have been initialised.
\<close>

definition WmiService_dtor :: "world \<Rightarrow> WmiService \<Rightarrow> world" where
  "WmiService_dtor w this =
     ComInitialize_dtor (Release (wbemLocator this) (Release (wbemServices this) w))"

text \<open>The arguments the constructor passes to \<open>ConnectServer\<close> and \<open>CoSetProxyBlanket\<close>.\<close>

definition connect_arguments :: "string \<Rightarrow> connect_args" where
  "connect_arguments path =
     \<lparr>strNetworkResource = path, strUser = None, strPassword = None, strLocale = None,
      lSecurityFlags = 0, strAuthority = None, pCtx = None\<rparr>"

definition blanket :: proxy_blanket where
  "blanket =
     \<lparr>dwAuthnSvc = RPC_C_AUTHN_WINNT, dwAuthzSvc = RPC_C_AUTHZ_NONE, pServerPrincName = None,
      dwAuthnLevel = RPC_C_AUTHN_LEVEL_CALL, dwImpLevel = RPC_C_IMP_LEVEL_IMPERSONATE,
      pAuthInfo = None, dwCapabilities = EOAC_NONE\<rparr>"

text \<open>
  \<open>explicit WmiService(LPCWSTR _path)\<close>. The conversion of the path to a BSTR
  (\<open>ntl::ComBstr\<close>) is the identity on the string; memory exhaustion is outside the model.
\<close>

definition WmiService_ctor :: "natives \<Rightarrow> world \<Rightarrow> string \<Rightarrow> (exn + WmiService) \<times> world" where
  "WmiService_ctor n w path =
     (case ComInitialize_ctor n w of
        (Inl e, w1) \<Rightarrow> (Inl e, w1)
      | (Inr g, w1) \<Rightarrow>
          (case createInstance n w1 of
             (Inl e, w2) \<Rightarrow> (Inl e, ComInitialize_dtor w2)
           | (Inr a, w2) \<Rightarrow>
               (case ConnectServer n w2 (Some a) (connect_arguments path) of (hr, svc) \<Rightarrow>
                  let w3 = AddRef svc (logged (Call_ConnectServer (Some a) (connect_arguments path)) hr w2);
                      this = \<lparr>coinit = g, wbemLocator = Some a, wbemServices = svc\<rparr>
                  in if FAILED hr
                     then (Inl (Exception hr ''IWbemLocator::ConnectServer'' ''WmiService::connect'' False),
                           WmiService_dtor w3 this)
                     else
                       let hr2 = CoSetProxyBlanket n w3 svc blanket;
                           w4 = logged (Call_CoSetProxyBlanket svc blanket) hr2 w3
                       in if FAILED hr2
                          then (Inl (Exception hr2 ''CoSetProxyBlanket'' ''WmiService::connect'' False),
                                WmiService_dtor w4 this)
                          else (Inr this, w4))))"

text \<open>The copy constructor: a guard of its own, and copies of the two pointers.\<close>

definition WmiService_copy :: "natives \<Rightarrow> world \<Rightarrow> WmiService \<Rightarrow> (exn + WmiService) \<times> world" where
  "WmiService_copy n w service =
     (case ComInitialize_ctor n w of
        (Inl e, w1) \<Rightarrow> (Inl e, w1)
      | (Inr g, w1) \<Rightarrow>
          (Inr \<lparr>coinit = g, wbemLocator = wbemLocator service, wbemServices = wbemServices service\<rparr>,
           AddRef (wbemServices service) (AddRef (wbemLocator service) w1)))"

text \<open>
  \<open>operator=\<close>: the result is the outcome, the target after the call and the world.
  The C++ code reads \<open>_service\<close> only while it constructs the temporary, before it
  writes to \<open>this\<close>, so the model is also the self-assignment \<open>h = h\<close> when both
  arguments are the same value. \<open>std::swap\<close> of two pointers exchanges them.
\<close>

definition swap_ptr :: "ptr \<times> ptr \<Rightarrow> ptr \<times> ptr" where
  "swap_ptr ab = (snd ab, fst ab)"

definition operator_assign ::
  "natives \<Rightarrow> world \<Rightarrow> WmiService \<Rightarrow> WmiService \<Rightarrow> (exn + unit) \<times> WmiService \<times> world" where
  "operator_assign n w this service =
     (case WmiService_copy n w service of
        (Inl e, w1) \<Rightarrow> (Inl e, this, w1)
      | (Inr temp, w1) \<Rightarrow>
          let l = swap_ptr (wbemLocator this, wbemLocator temp);
              s = swap_ptr (wbemServices this, wbemServices temp);
              this' = this\<lparr>wbemLocator := fst l, wbemServices := fst s\<rparr>;
              temp' = temp\<lparr>wbemLocator := snd l, wbemServices := snd s\<rparr>
          in (Inr (), this', WmiService_dtor w1 temp'))"

text \<open>\<open>operator->\<close> and \<open>get\<close>: the raw connection pointer.\<close>

definition get :: "WmiService \<Rightarrow> ptr" where
  "get this = wbemServices this"

definition operator_arrow :: "WmiService \<Rightarrow> ptr" where
  "operator_arrow this = wbemServices this"

text \<open>\<open>operator==\<close> and \<open>operator!=\<close>; two \<open>ComPtr\<close>s are equal when they hold the same address.\<close>

definition operator_eq :: "WmiService \<Rightarrow> WmiService \<Rightarrow> bool" where
  "operator_eq this service =
     ((wbemLocator this = wbemLocator service) \<and> (wbemServices this = wbemServices service))"

definition operator_ne :: "WmiService \<Rightarrow> WmiService \<Rightarrow> bool" where
  "operator_ne this service = (\<not> operator_eq this service)"

text \<open>
  \<open>delete_path(_objPath, _context)\<close>. The local \<open>result\<close> is released on every way
  out of the function.
\<close>

definition delete_path ::
  "natives \<Rightarrow> world \<Rightarrow> WmiService \<Rightarrow> string \<Rightarrow> ptr \<Rightarrow> (exn + unit) \<times> world" where
  "delete_path n w this objPath context =
     (case wbemServices this of
        None \<Rightarrow> (Inl NullDereference, w)
      | Some svc \<Rightarrow>
          (case DeleteInstance n w (Some svc) objPath WBEM_FLAG_RETURN_IMMEDIATELY context of (hr, result) \<Rightarrow>
             let w1 = AddRef result
                        (logged (Call_DeleteInstance (Some svc) objPath WBEM_FLAG_RETURN_IMMEDIATELY context) hr w)
             in if FAILED hr
                then (Inl (WmiException hr ''IWbemServices::DeleteInstance'' ''WmiService::delete_path'' False),
                      Release result w1)
                else
                  (case result of
                     None \<Rightarrow> (Inl NullDereference, w1)
                   | Some r \<Rightarrow>
                       (case GetCallStatus n w1 (Some r) WBEM_INFINITE of (hr2, status) \<Rightarrow>
                          let w2 = logged (Call_GetCallStatus (Some r) WBEM_INFINITE) hr2 w1
                          in if FAILED hr2
                             then (Inl (WmiException hr2 ''IWbemCallResult::GetCallStatus'' ''WmiService::delete_path'' False),
                                   Release result w2)
                             else if FAILED status
                             then (Inl (WmiException status ''IWbemServices::DeleteInstance'' ''WmiService::delete_path'' False),
                                   Release result w2)
                             else (Inr (), Release result w2)))))"

text \<open>\<open>delete_path(_objPath)\<close>: a default-constructed (null) context.\<close>

definition delete_path1 :: "natives \<Rightarrow> world \<Rightarrow> WmiService \<Rightarrow> string \<Rightarrow> (exn + unit) \<times> world" where
  "delete_path1 n w this objPath = (let null_context = None in delete_path n w this objPath null_context)"

section \<open>Observations\<close>

text \<open>The calls logged between two worlds, oldest first.\<close>

definition new_calls :: "world \<Rightarrow> world \<Rightarrow> (native_call \<times> HRESULT) list" where
  "new_calls w w' = drop (length (calls w)) (calls w')"

fun is_submit :: "native_call \<Rightarrow> bool" where
  "is_submit (Call_DeleteInstance svc p f c) = True"
| "is_submit _ = False"

fun is_wait :: "native_call \<Rightarrow> bool" where
  "is_wait (Call_GetCallStatus r t) = True"
| "is_wait _ = False"

fun is_blanket_call :: "native_call \<Rightarrow> bool" where
  "is_blanket_call (Call_CoSetProxyBlanket p b) = True"
| "is_blanket_call _ = False"

definition blanket_calls :: "world \<Rightarrow> native_call list" where
  "blanket_calls w = filter is_blanket_call (map fst (calls w))"

text \<open>
  What the service answers to the submission of \<open>delete_path\<close>, the world once the
  submission has answered, and what the service answers to the wait that follows.
\<close>

definition submit_answer :: "natives \<Rightarrow> world \<Rightarrow> WmiService \<Rightarrow> string \<Rightarrow> ptr \<Rightarrow> HRESULT \<times> ptr" where
  "submit_answer n w this objPath context =
     DeleteInstance n w (wbemServices this) objPath WBEM_FLAG_RETURN_IMMEDIATELY context"

definition submitted :: "natives \<Rightarrow> world \<Rightarrow> WmiService \<Rightarrow> string \<Rightarrow> ptr \<Rightarrow> world" where
  "submitted n w this objPath context =
     AddRef (snd (submit_answer n w this objPath context))
       (logged (Call_DeleteInstance (wbemServices this) objPath WBEM_FLAG_RETURN_IMMEDIATELY context)
          (fst (submit_answer n w this objPath context)) w)"

definition wait_answer :: "natives \<Rightarrow> world \<Rightarrow> WmiService \<Rightarrow> string \<Rightarrow> ptr \<Rightarrow> HRESULT \<times> HRESULT" where
  "wait_answer n w this objPath context =
     GetCallStatus n (submitted n w this objPath context)
       (snd (submit_answer n w this objPath context)) WBEM_INFINITE"

text \<open>
  The COM rule for out-parameters: a call that succeeds hands out a non-null interface
  pointer.
\<close>

definition connect_contract :: "natives \<Rightarrow> bool" where
  "connect_contract n = (\<forall>w l a. FAILED (fst (ConnectServer n w l a)) \<or> snd (ConnectServer n w l a) \<noteq> None)"

definition submit_contract :: "natives \<Rightarrow> bool" where
  "submit_contract n =
     (\<forall>w svc p f c. FAILED (fst (DeleteInstance n w svc p f c)) \<or> snd (DeleteInstance n w svc p f c) \<noteq> None)"

text \<open>
  The failure taxonomy of the spec (section 7) read off the failure values of the
  constructor: which step a failure value names.
\<close>

fun is_SubsystemInitError :: "exn \<Rightarrow> bool" where
  "is_SubsystemInitError (SubsystemInitError hr) = FAILED hr"
| "is_SubsystemInitError _ = False"

fun is_ConnectionError :: "exn \<Rightarrow> bool" where
  "is_ConnectionError (LocatorCreateError hr) = FAILED hr"
| "is_ConnectionError (Exception hr native local c) =
     (FAILED hr \<and> native = ''IWbemLocator::ConnectServer'' \<and> local = ''WmiService::connect'')"
| "is_ConnectionError _ = False"

fun is_SecurityConfigurationError :: "exn \<Rightarrow> bool" where
  "is_SecurityConfigurationError (Exception hr native local c) =
     (FAILED hr \<and> native = ''CoSetProxyBlanket'' \<and> local = ''WmiService::connect'')"
| "is_SecurityConfigurationError _ = False"

text \<open>A usable handle: both pointers are valid; and the blanket was set on its connection.\<close>

definition fully_connected :: "WmiService \<Rightarrow> bool" where
  "fully_connected h = (wbemLocator h \<noteq> None \<and> wbemServices h \<noteq> None)"

definition security_configured :: "world \<Rightarrow> WmiService \<Rightarrow> bool" where
  "security_configured w h =
     list_ex (\<lambda>ch. fst ch = Call_CoSetProxyBlanket (wbemServices h) blanket \<and> \<not> FAILED (snd ch)) (calls w)"

section \<open>Concrete worlds\<close>

text \<open>Status codes of the SDK used in the examples.\<close>

definition S_OK :: HRESULT where "S_OK = 0"
definition WBEM_E_ACCESS_DENIED :: HRESULT where "WBEM_E_ACCESS_DENIED = 0x80041003"
definition WBEM_E_NOT_FOUND :: HRESULT where "WBEM_E_NOT_FOUND = 0x80041002"
definition WBEM_E_TRANSPORT_FAILURE :: HRESULT where "WBEM_E_TRANSPORT_FAILURE = 0x80041015"
definition RPC_E_CHANGED_MODE :: HRESULT where "RPC_E_CHANGED_MODE = 0x80010106"

text \<open>A thread on which nothing has happened yet.\<close>

definition world0 :: world where
  "world0 = \<lparr>refs = (\<lambda>a. 0), com_inits = 0, guards_made = 0, calls = []\<rparr>"

text \<open>
  An operating system that answers every call of one kind with the same status, and
  hands out a new address (the number of calls so far) whenever a call succeeds.
\<close>

definition scripted ::
  "HRESULT \<Rightarrow> HRESULT \<Rightarrow> HRESULT \<Rightarrow> HRESULT \<Rightarrow> HRESULT \<Rightarrow> HRESULT \<Rightarrow> HRESULT \<Rightarrow> natives" where
  "scripted h_init h_create h_connect h_blanket h_delete h_wait status =
     \<lparr>CoInitializeEx = (\<lambda>w. h_init),
      CoCreateInstance = (\<lambda>w. (h_create, length (calls w))),
      ConnectServer = (\<lambda>w l a. (h_connect, if FAILED h_connect then None else Some (length (calls w)))),
      CoSetProxyBlanket = (\<lambda>w p b. h_blanket),
      DeleteInstance = (\<lambda>w svc p f c. (h_delete, if FAILED h_delete then None else Some (length (calls w)))),
      GetCallStatus = (\<lambda>w r t. (h_wait, status))\<rparr>"

definition all_ok :: natives where
  "all_ok = scripted S_OK S_OK S_OK S_OK S_OK S_OK S_OK"

text \<open>A handle as a successful construction on \<open>world0\<close> yields it, and that world.\<close>

definition handle1 :: WmiService where
  "handle1 = \<lparr>coinit = \<lparr>serial = 0\<rparr>, wbemLocator = Some 0, wbemServices = Some 1\<rparr>"

definition world1 :: world where
  "world1 =
     \<lparr>refs = (\<lambda>a. 0)(0 := 1, 1 := 1), com_inits = 1, guards_made = 1,
      calls = [(Call_createInstance, S_OK),
               (Call_ConnectServer (Some 0) (connect_arguments ''root/cimv2''), S_OK),
               (Call_CoSetProxyBlanket (Some 1) blanket, S_OK)]\<rparr>"

text \<open>
  Three more operating systems: one that denies the deletion when it is submitted, one
  that accepts the submission and reports the denial as the status of the completed call,
  and one that refuses to initialise the subsystem on the thread.
\<close>

definition denied_at_submit :: natives where
  "denied_at_submit = scripted S_OK S_OK S_OK S_OK WBEM_E_ACCESS_DENIED S_OK S_OK"

definition denied_at_completion :: natives where
  "denied_at_completion = scripted S_OK S_OK S_OK S_OK S_OK S_OK WBEM_E_ACCESS_DENIED"

definition subsystem_refused :: natives where
  "subsystem_refused = scripted RPC_E_CHANGED_MODE S_OK S_OK S_OK S_OK S_OK S_OK"

text \<open>
  The stage at which a call of \<open>delete_path\<close> fails, read off the answers of the
  service: the submission, the retrieval of the status, the status itself.
\<close>

datatype stage = Submit | AwaitStatus | Completed

definition failing_stage :: "natives \<Rightarrow> world \<Rightarrow> WmiService \<Rightarrow> string \<Rightarrow> ptr \<Rightarrow> stage option" where
  "failing_stage n w this objPath context =
     (if FAILED (fst (submit_answer n w this objPath context)) then Some Submit
      else if FAILED (fst (wait_answer n w this objPath context)) then Some AwaitStatus
      else if FAILED (snd (wait_answer n w this objPath context)) then Some Completed
      else None)"

text \<open>An operating system on which the transport fails while the status is retrieved.\<close>

definition transport_lost :: natives where
  "transport_lost = scripted S_OK S_OK S_OK S_OK S_OK WBEM_E_TRANSPORT_FAILURE S_OK"

text \<open>An operating system that refuses the security blanket.\<close>

definition blanket_denied :: natives where
  "blanket_denied = scripted S_OK S_OK S_OK WBEM_E_ACCESS_DENIED S_OK S_OK S_OK"

text \<open>The handle that a second construction on \<open>world1\<close> yields.\<close>

definition handle2 :: WmiService where
  "handle2 = \<lparr>coinit = \<lparr>serial = 1\<rparr>, wbemLocator = Some 3, wbemServices = Some 4\<rparr>"

section \<open>Basic facts\<close>

lemma not_FAILED_S_OK: "\<not> FAILED S_OK"
  by (simp add: FAILED_def S_OK_def)

lemma FAILED_codes:
  "FAILED WBEM_E_ACCESS_DENIED" "FAILED WBEM_E_NOT_FOUND" "FAILED WBEM_E_TRANSPORT_FAILURE" "FAILED RPC_E_CHANGED_MODE"
  by (simp_all add: FAILED_def WBEM_E_ACCESS_DENIED_def WBEM_E_NOT_FOUND_def WBEM_E_TRANSPORT_FAILURE_def RPC_E_CHANGED_MODE_def)

lemma logged_fields:
  "calls (logged c hr w) = calls w @ [(c, hr)]" "refs (logged c hr w) = refs w"
  "com_inits (logged c hr w) = com_inits w" "guards_made (logged c hr w) = guards_made w"
  by (simp_all add: logged_def)

lemma AddRef_fields:
  "calls (AddRef p w) = calls w" "com_inits (AddRef p w) = com_inits w"
  "guards_made (AddRef p w) = guards_made w"
  by (simp_all add: AddRef_def split: option.split)

lemma Release_fields:
  "calls (Release p w) = calls w" "com_inits (Release p w) = com_inits w"
  "guards_made (Release p w) = guards_made w"
  by (simp_all add: Release_def split: option.split)

lemma dtor_fields:
  "calls (ComInitialize_dtor w) = calls w" "refs (ComInitialize_dtor w) = refs w"
  "guards_made (ComInitialize_dtor w) = guards_made w" "com_inits (ComInitialize_dtor w) = com_inits w - 1"
  by (simp_all add: ComInitialize_dtor_def)

lemma Release_AddRef: "Release p (AddRef p w) = w"
  by (simp add: Release_def AddRef_def split: option.split)

lemma AddRef_logged: "AddRef p (logged c hr w) = logged c hr (AddRef p w)"
  by (simp add: AddRef_def logged_def split: option.split)

lemma Release_logged: "Release p (logged c hr w) = logged c hr (Release p w)"
  by (simp add: Release_def logged_def split: option.split)

lemma refs_Release_AddRef2: "refs (Release p (Release q (AddRef q (AddRef p w)))) = refs w"
  by (simp add: Release_AddRef)

lemma guard_granted:
  "ComInitialize_ctor n w = (Inr g, w1) \<Longrightarrow>
     g = \<lparr>serial = guards_made w\<rparr> \<and> w1 = w\<lparr>com_inits := com_inits w + 1, guards_made := guards_made w + 1\<rparr>"
  by (simp add: ComInitialize_ctor_def split: if_splits)

lemma guard_refused:
  "ComInitialize_ctor n w = (Inl e, w1) \<Longrightarrow>
     w1 = w \<and> com_inits w = 0 \<and> e = SubsystemInitError (CoInitializeEx n w) \<and> FAILED (CoInitializeEx n w)"
  by (auto simp add: ComInitialize_ctor_def split: if_splits)

lemma guard_idempotent:
  "0 < com_inits w \<Longrightarrow>
     ComInitialize_ctor n w = (Inr \<lparr>serial = guards_made w\<rparr>, w\<lparr>com_inits := com_inits w + 1, guards_made := guards_made w + 1\<rparr>)"
  by (simp add: ComInitialize_ctor_def)

lemma scripted_contracts:
  "connect_contract (scripted h_init h_create h_connect h_blanket h_delete h_wait status)"
  "submit_contract (scripted h_init h_create h_connect h_blanket h_delete h_wait status)"
  by (simp_all add: connect_contract_def submit_contract_def scripted_def)

section \<open>delete\_path\<close>

text \<open>
  C1. On a valid handle, under the COM rule for the out-parameter of the submission:
  \<open>delete_path\<close> fails with the submission's status exactly when the submission fails,
  and then no wait is logged; after a successful submission it fails with the status of
  \<open>GetCallStatus\<close> exactly when the retrieval of the status fails; after a successful
  retrieval it fails with the service-reported status exactly when that status is a
  failure; otherwise it returns. There is exactly one submission and at most one wait:
  nothing is retried.
\<close>

theorem delete_path_stages:
  assumes valid: "wbemServices this \<noteq> None" and contract: "submit_contract n"
  shows "fst (delete_path n w this objPath context) =
           (if FAILED (fst (submit_answer n w this objPath context))
            then Inl (WmiException (fst (submit_answer n w this objPath context))
                        ''IWbemServices::DeleteInstance'' ''WmiService::delete_path'' False)
            else if FAILED (fst (wait_answer n w this objPath context))
            then Inl (WmiException (fst (wait_answer n w this objPath context))
                        ''IWbemCallResult::GetCallStatus'' ''WmiService::delete_path'' False)
            else if FAILED (snd (wait_answer n w this objPath context))
            then Inl (WmiException (snd (wait_answer n w this objPath context))
                        ''IWbemServices::DeleteInstance'' ''WmiService::delete_path'' False)
            else Inr ())
         \<and> length (filter (is_submit \<circ> fst) (new_calls w (snd (delete_path n w this objPath context)))) = 1
         \<and> length (filter (is_wait \<circ> fst) (new_calls w (snd (delete_path n w this objPath context)))) =
             (if FAILED (fst (submit_answer n w this objPath context)) then 0 else 1)"
proof -
  from valid obtain svc where svc: "wbemServices this = Some svc" by auto
  obtain hr result where sub: "DeleteInstance n w (Some svc) objPath WBEM_FLAG_RETURN_IMMEDIATELY context = (hr, result)"
    by (cases "DeleteInstance n w (Some svc) objPath WBEM_FLAG_RETURN_IMMEDIATELY context")
  from contract sub have res: "\<not> FAILED hr \<Longrightarrow> result \<noteq> None"
    unfolding submit_contract_def by (metis fst_conv snd_conv)
  show ?thesis
  proof (cases "FAILED hr")
    case True
    then show ?thesis using svc sub
      by (simp add: delete_path_def submit_answer_def new_calls_def logged_fields AddRef_fields Release_fields)
  next
    case False
    with res obtain r where r: "result = Some r" by auto
    obtain hr2 status where wt: "GetCallStatus n (submitted n w this objPath context) (Some r) WBEM_INFINITE = (hr2, status)"
      by (cases "GetCallStatus n (submitted n w this objPath context) (Some r) WBEM_INFINITE")
    show ?thesis using False svc sub r wt
      by (simp add: delete_path_def submit_answer_def wait_answer_def submitted_def new_calls_def
            logged_fields AddRef_fields Release_fields)
  qed
qed


theorem delete_path_stages_witness:
  "wbemServices handle1 \<noteq> None
   \<and> submit_contract (scripted S_OK S_OK S_OK S_OK S_OK S_OK WBEM_E_NOT_FOUND)
   \<and> fst (delete_path (scripted S_OK S_OK S_OK S_OK S_OK S_OK WBEM_E_NOT_FOUND) world1 handle1
            ''MyClass.MyProperty1=33'' None) =
       Inl (WmiException WBEM_E_NOT_FOUND ''IWbemServices::DeleteInstance'' ''WmiService::delete_path'' False)
   \<and> length (filter (is_wait \<circ> fst)
        (new_calls world1 (snd (delete_path (scripted S_OK S_OK S_OK S_OK S_OK S_OK WBEM_E_NOT_FOUND) world1 handle1
            ''MyClass.MyProperty1=33'' None)))) = 1"
proof -
  have v: "wbemServices handle1 \<noteq> None"
    by (simp add: handle1_def)
  have c: "submit_contract (scripted S_OK S_OK S_OK S_OK S_OK S_OK WBEM_E_NOT_FOUND)"
    by (rule scripted_contracts)
  show ?thesis
    using v c delete_path_stages [OF v c, of world1 "''MyClass.MyProperty1=33''" None]
    by (simp add: submit_answer_def wait_answer_def scripted_def not_FAILED_S_OK FAILED_codes)
qed

text \<open>
  C7. The one-argument overload of \<open>delete_path\<close> has the outcome and the effects of
  the two-argument overload called with a null context.
\<close>

theorem delete_path_default_context:
  "delete_path1 n w this objPath = delete_path n w this objPath None"
  by (simp add: delete_path1_def)

theorem delete_path_default_context_witness:
  "delete_path1 all_ok world1 handle1 ''MyClass.MyProperty1=33'' =
     delete_path all_ok world1 handle1 ''MyClass.MyProperty1=33'' None"
  by (rule delete_path_default_context)

text \<open>
  C8. The calls that \<open>delete_path\<close> adds to the log, in the order in which they are
  made: first the submission (in return-immediately mode); then, only when the submission
  did not fail, the wait on the call result the submission handed out, with the timeout
  \<open>WBEM_INFINITE\<close>; and nothing else. The function takes no timeout and no
  cancellation argument, so no other wait can be asked for.
\<close>

theorem submit_precedes_wait:
  assumes valid: "wbemServices this \<noteq> None" and contract: "submit_contract n"
  shows "calls (snd (delete_path n w this objPath context)) =
           calls w @
           (Call_DeleteInstance (wbemServices this) objPath WBEM_FLAG_RETURN_IMMEDIATELY context,
            fst (submit_answer n w this objPath context)) #
           (if FAILED (fst (submit_answer n w this objPath context)) then []
            else [(Call_GetCallStatus (snd (submit_answer n w this objPath context)) WBEM_INFINITE,
                   fst (wait_answer n w this objPath context))])"
proof -
  from valid obtain svc where svc: "wbemServices this = Some svc" by auto
  obtain hr result where sub: "DeleteInstance n w (Some svc) objPath WBEM_FLAG_RETURN_IMMEDIATELY context = (hr, result)"
    by (cases "DeleteInstance n w (Some svc) objPath WBEM_FLAG_RETURN_IMMEDIATELY context")
  from contract sub have res: "\<not> FAILED hr \<Longrightarrow> result \<noteq> None"
    unfolding submit_contract_def by (metis fst_conv snd_conv)
  show ?thesis
  proof (cases "FAILED hr")
    case True
    then show ?thesis using svc sub
      by (simp add: delete_path_def submit_answer_def logged_fields AddRef_fields Release_fields)
  next
    case False
    with res obtain r where r: "result = Some r" by auto
    obtain hr2 status where wt: "GetCallStatus n (submitted n w this objPath context) (Some r) WBEM_INFINITE = (hr2, status)"
      by (cases "GetCallStatus n (submitted n w this objPath context) (Some r) WBEM_INFINITE")
    show ?thesis using False svc sub r wt
      by (simp add: delete_path_def submit_answer_def wait_answer_def submitted_def Let_def
            logged_fields AddRef_fields Release_fields)
  qed
qed

theorem submit_precedes_wait_witness:
  "wbemServices handle1 \<noteq> None \<and> submit_contract all_ok
   \<and> calls (snd (delete_path all_ok world1 handle1 ''MyClass.MyProperty1=33'' None)) =
       calls world1 @
       [(Call_DeleteInstance (Some 1) ''MyClass.MyProperty1=33'' WBEM_FLAG_RETURN_IMMEDIATELY None, S_OK),
        (Call_GetCallStatus (Some 3) WBEM_INFINITE, S_OK)]"
proof -
  have v: "wbemServices handle1 \<noteq> None"
    by (simp add: handle1_def)
  have c: "submit_contract all_ok"
    by (simp add: all_ok_def scripted_contracts)
  show ?thesis
    using v c submit_precedes_wait [OF v c, of world1 "''MyClass.MyProperty1=33''" None]
    by (simp add: submit_answer_def wait_answer_def all_ok_def scripted_def not_FAILED_S_OK
          handle1_def world1_def)
qed

text \<open>The outcome of \<open>delete_path\<close> by the stage at which the call fails.\<close>

lemma delete_path_outcome:
  assumes valid: "wbemServices this \<noteq> None" and contract: "submit_contract n"
  shows "fst (delete_path n w this objPath context) =
           (case failing_stage n w this objPath context of
              Some Submit \<Rightarrow> Inl (WmiException (fst (submit_answer n w this objPath context))
                        ''IWbemServices::DeleteInstance'' ''WmiService::delete_path'' False)
            | Some AwaitStatus \<Rightarrow> Inl (WmiException (fst (wait_answer n w this objPath context))
                        ''IWbemCallResult::GetCallStatus'' ''WmiService::delete_path'' False)
            | Some Completed \<Rightarrow> Inl (WmiException (snd (wait_answer n w this objPath context))
                        ''IWbemServices::DeleteInstance'' ''WmiService::delete_path'' False)
            | None \<Rightarrow> Inr ())"
proof -
  from valid obtain svc where svc: "wbemServices this = Some svc" by auto
  obtain hr result where sub: "DeleteInstance n w (Some svc) objPath WBEM_FLAG_RETURN_IMMEDIATELY context = (hr, result)"
    by (cases "DeleteInstance n w (Some svc) objPath WBEM_FLAG_RETURN_IMMEDIATELY context")
  from contract sub have res: "\<not> FAILED hr \<Longrightarrow> result \<noteq> None"
    unfolding submit_contract_def by (metis fst_conv snd_conv)
  show ?thesis
  proof (cases "FAILED hr")
    case True
    then show ?thesis using svc sub
      by (simp add: delete_path_def submit_answer_def failing_stage_def)
  next
    case False
    with res obtain r where r: "result = Some r" by auto
    obtain hr2 status where wt: "GetCallStatus n (submitted n w this objPath context) (Some r) WBEM_INFINITE = (hr2, status)"
      by (cases "GetCallStatus n (submitted n w this objPath context) (Some r) WBEM_INFINITE")
    show ?thesis using False svc sub r wt
      by (simp add: delete_path_def submit_answer_def wait_answer_def submitted_def failing_stage_def)
  qed
qed

text \<open>
  C2, as the code has it. The failure value of an await-status failure names
  \<open>IWbemCallResult::GetCallStatus\<close> and differs from the failure value of every call
  that fails at another stage. The failure values of a completed-stage failure and of a
  submit-stage failure carry the same native operation, the same local operation and the
  same flag: they are equal exactly when their status codes are equal.
\<close>

theorem failure_value_by_stage:
  assumes "wbemServices thisA \<noteq> None" and "submit_contract nA"
      and "wbemServices thisB \<noteq> None" and "submit_contract nB"
  shows "(failing_stage nA wA thisA pA cA = Some Completed \<and> failing_stage nB wB thisB pB cB = Some Submit \<longrightarrow>
            (fst (delete_path nA wA thisA pA cA) = fst (delete_path nB wB thisB pB cB)
             \<longleftrightarrow> snd (wait_answer nA wA thisA pA cA) = fst (submit_answer nB wB thisB pB cB)))
         \<and> (failing_stage nA wA thisA pA cA = Some AwaitStatus \<and> failing_stage nB wB thisB pB cB \<noteq> Some AwaitStatus \<longrightarrow>
            fst (delete_path nA wA thisA pA cA) \<noteq> fst (delete_path nB wB thisB pB cB))"
  using delete_path_outcome [OF assms(1,2), of wA pA cA] delete_path_outcome [OF assms(3,4), of wB pB cB]
  by (auto split: option.splits stage.splits)


text \<open>
  C2 as stated fails: access denied reported as the status of the completed call, and
  access denied at the submission, give the caller the same failure value.
\<close>

theorem failure_value_hides_stage:
  "failing_stage denied_at_completion world1 handle1 ''MyClass.MyProperty1=33'' None = Some Completed
   \<and> failing_stage denied_at_submit world1 handle1 ''MyClass.MyProperty1=33'' None = Some Submit
   \<and> fst (delete_path denied_at_completion world1 handle1 ''MyClass.MyProperty1=33'' None) =
       fst (delete_path denied_at_submit world1 handle1 ''MyClass.MyProperty1=33'' None)"
  by (simp add: failing_stage_def submit_answer_def wait_answer_def delete_path_def denied_at_completion_def
        denied_at_submit_def scripted_def handle1_def not_FAILED_S_OK FAILED_codes)


theorem failure_value_by_stage_witness:
  "wbemServices handle1 \<noteq> None \<and> submit_contract denied_at_completion \<and> submit_contract denied_at_submit
   \<and> submit_contract transport_lost
   \<and> failing_stage denied_at_completion world1 handle1 ''MyClass.MyProperty1=33'' None = Some Completed
   \<and> failing_stage denied_at_submit world1 handle1 ''MyClass.MyProperty1=33'' None = Some Submit
   \<and> failing_stage transport_lost world1 handle1 ''MyClass.MyProperty1=33'' None = Some AwaitStatus
   \<and> (fst (delete_path denied_at_completion world1 handle1 ''MyClass.MyProperty1=33'' None) =
        fst (delete_path denied_at_submit world1 handle1 ''MyClass.MyProperty1=33'' None)
      \<longleftrightarrow> snd (wait_answer denied_at_completion world1 handle1 ''MyClass.MyProperty1=33'' None) =
          fst (submit_answer denied_at_submit world1 handle1 ''MyClass.MyProperty1=33'' None))
   \<and> fst (delete_path transport_lost world1 handle1 ''MyClass.MyProperty1=33'' None) \<noteq>
       fst (delete_path denied_at_submit world1 handle1 ''MyClass.MyProperty1=33'' None)"
proof -
  have v: "wbemServices handle1 \<noteq> None"
    by (simp add: handle1_def)
  have cA: "submit_contract denied_at_completion" and cB: "submit_contract denied_at_submit"
    and cC: "submit_contract transport_lost"
    by (simp_all add: denied_at_completion_def denied_at_submit_def transport_lost_def scripted_contracts)
  have sA: "failing_stage denied_at_completion world1 handle1 ''MyClass.MyProperty1=33'' None = Some Completed"
    and sB: "failing_stage denied_at_submit world1 handle1 ''MyClass.MyProperty1=33'' None = Some Submit"
    and sC: "failing_stage transport_lost world1 handle1 ''MyClass.MyProperty1=33'' None = Some AwaitStatus"
    by (simp_all add: failing_stage_def submit_answer_def wait_answer_def denied_at_completion_def
        denied_at_submit_def transport_lost_def scripted_def not_FAILED_S_OK FAILED_codes)
  have sB': "failing_stage denied_at_submit world1 handle1 ''MyClass.MyProperty1=33'' None \<noteq> Some AwaitStatus"
    by (simp add: sB)
  show ?thesis
    using v cA cB cC sA sB sC sB'
      failure_value_by_stage [OF v cA v cB, of world1 "''MyClass.MyProperty1=33''" None world1 "''MyClass.MyProperty1=33''" None]
      failure_value_by_stage [OF v cC v cB, of world1 "''MyClass.MyProperty1=33''" None world1 "''MyClass.MyProperty1=33''" None]
    by blast
qed

section \<open>Construction\<close>

lemma createInstance_cases:
  "createInstance n w =
     (if FAILED (fst (CoCreateInstance n w))
      then (Inl (LocatorCreateError (fst (CoCreateInstance n w))), logged Call_createInstance (fst (CoCreateInstance n w)) w)
      else (Inr (snd (CoCreateInstance n w)),
            AddRef (Some (snd (CoCreateInstance n w))) (logged Call_createInstance (fst (CoCreateInstance n w)) w)))"
  by (simp add: createInstance_def split: prod.split)

lemma construct_handle1:
  "WmiService_ctor all_ok world0 ''root/cimv2'' = (Inr handle1, world1)"
  by (simp add: WmiService_ctor_def all_ok_def scripted_def world0_def handle1_def world1_def
        ComInitialize_ctor_def createInstance_def logged_def AddRef_def FAILED_def S_OK_def fun_upd_twist)

text \<open>
  C3, as the code has it. Under the COM rule for the out-parameter of the connect call,
  the construction either yields a handle whose locator and connection are both valid and
  whose connection has had the blanket set, holding one guard and one reference to each
  of the two resources; or it fails at the subsystem guard, at the creation of the
  locator, at the connect call or at the security configuration, yields no handle, and
  leaves the reference counts and the initialisation count of the thread as they were:
  whatever had been acquired is released.
\<close>

theorem construction_all_or_nothing:
  assumes contract: "connect_contract n"
  shows "case WmiService_ctor n w path of
           (Inr h, w') \<Rightarrow>
              fully_connected h \<and> security_configured w' h
              \<and> com_inits w' = com_inits w + 1
              \<and> refs w' = refs (AddRef (wbemServices h) (AddRef (wbemLocator h) w))
         | (Inl e, w') \<Rightarrow>
              (is_SubsystemInitError e \<or> is_ConnectionError e \<or> is_SecurityConfigurationError e)
              \<and> com_inits w' = com_inits w \<and> refs w' = refs w"
proof (cases "ComInitialize_ctor n w")
  case (Pair r w1)
  show ?thesis
  proof (cases r)
    case (Inl e)
    with Pair guard_refused [of n w e w1] show ?thesis
      by (simp add: WmiService_ctor_def)
  next
    case (Inr g)
    with Pair guard_granted [of n w g w1]
    have w1: "w1 = w\<lparr>com_inits := com_inits w + 1, guards_made := guards_made w + 1\<rparr>" by simp
    show ?thesis
    proof (cases "FAILED (fst (CoCreateInstance n w1))")
      case True
      then show ?thesis using Pair Inr w1
        by (simp add: WmiService_ctor_def createInstance_cases dtor_fields logged_fields)
    next
      case False
      define a where "a = snd (CoCreateInstance n w1)"
      define w2 where "w2 = AddRef (Some a) (logged Call_createInstance (fst (CoCreateInstance n w1)) w1)"
      obtain hr svc where cs: "ConnectServer n w2 (Some a) (connect_arguments path) = (hr, svc)"
        by (cases "ConnectServer n w2 (Some a) (connect_arguments path)")
      from contract cs have valid: "\<not> FAILED hr \<Longrightarrow> svc \<noteq> None"
        unfolding connect_contract_def by (metis fst_conv snd_conv)
      have ci: "createInstance n w1 = (Inr a, w2)"
        using False by (simp add: createInstance_cases a_def w2_def)
      show ?thesis
      proof (cases "FAILED hr")
        case True
        then show ?thesis using Pair Inr ci cs
          by (simp add: WmiService_ctor_def Let_def w2_def w1 WmiService_dtor_def dtor_fields
                AddRef_fields Release_fields logged_fields AddRef_logged Release_logged Release_AddRef
                AddRef_def Release_def split: option.split)
      next
        case hrok: False
        show ?thesis
        proof (cases "FAILED (CoSetProxyBlanket n (AddRef svc (logged (Call_ConnectServer (Some a) (connect_arguments path)) hr w2)) svc blanket)")
          case True
          then show ?thesis using Pair Inr ci cs hrok
            by (simp add: WmiService_ctor_def Let_def w2_def w1 WmiService_dtor_def dtor_fields
                AddRef_fields Release_fields logged_fields AddRef_logged Release_logged Release_AddRef
                AddRef_def Release_def split: option.split)
        next
          case False
          then show ?thesis using Pair Inr ci cs hrok valid
            by (simp add: WmiService_ctor_def Let_def w2_def w1 fully_connected_def security_configured_def
                AddRef_fields logged_fields AddRef_logged
                AddRef_def split: option.split)
        qed
      qed
    qed
  qed
qed


text \<open>
  C3 as stated fails: the guard member is constructed first, and when it is refused the
  construction fails with neither of the two failures that the claim lists.
\<close>

theorem construction_subsystem_failure:
  "fst (WmiService_ctor subsystem_refused world0 ''root/cimv2'') = Inl (SubsystemInitError RPC_E_CHANGED_MODE)
   \<and> \<not> is_ConnectionError (SubsystemInitError RPC_E_CHANGED_MODE)
   \<and> \<not> is_SecurityConfigurationError (SubsystemInitError RPC_E_CHANGED_MODE)"
  by (simp add: WmiService_ctor_def ComInitialize_ctor_def subsystem_refused_def scripted_def world0_def FAILED_codes)

lemma blanket_denied_outcome:
  "fst (WmiService_ctor blanket_denied world0 ''root/cimv2'') =
     Inl (Exception WBEM_E_ACCESS_DENIED ''CoSetProxyBlanket'' ''WmiService::connect'' False)"
  by (simp add: WmiService_ctor_def ComInitialize_ctor_def createInstance_def blanket_denied_def scripted_def
        world0_def Let_def not_FAILED_S_OK FAILED_codes)

theorem construction_all_or_nothing_witness:
  "connect_contract blanket_denied
   \<and> fst (WmiService_ctor blanket_denied world0 ''root/cimv2'') =
       Inl (Exception WBEM_E_ACCESS_DENIED ''CoSetProxyBlanket'' ''WmiService::connect'' False)
   \<and> is_SecurityConfigurationError (Exception WBEM_E_ACCESS_DENIED ''CoSetProxyBlanket'' ''WmiService::connect'' False)
   \<and> com_inits (snd (WmiService_ctor blanket_denied world0 ''root/cimv2'')) = 0
   \<and> refs (snd (WmiService_ctor blanket_denied world0 ''root/cimv2'')) = (\<lambda>a. 0)"
proof -
  have c: "connect_contract blanket_denied"
    by (simp add: blanket_denied_def scripted_contracts)
  obtain r w' where run: "WmiService_ctor blanket_denied world0 ''root/cimv2'' = (r, w')"
    by (cases "WmiService_ctor blanket_denied world0 ''root/cimv2''")
  with blanket_denied_outcome
  have r: "r = Inl (Exception WBEM_E_ACCESS_DENIED ''CoSetProxyBlanket'' ''WmiService::connect'' False)"
    by simp
  from construction_all_or_nothing [OF c, of world0 "''root/cimv2''"] run r
  have "com_inits w' = com_inits world0 \<and> refs w' = refs world0"
    by simp
  then show ?thesis using c run r
    by (simp add: world0_def FAILED_codes)
qed

lemma ctor_calls:
  assumes "WmiService_ctor n w path = (Inr h, w')"
  shows "\<exists>hr1 hr2 hr3.
           calls w' = calls w @
             [(Call_createInstance, hr1),
              (Call_ConnectServer (wbemLocator h) (connect_arguments path), hr2),
              (Call_CoSetProxyBlanket (wbemServices h) blanket, hr3)]
           \<and> \<not> FAILED hr1 \<and> \<not> FAILED hr2 \<and> \<not> FAILED hr3"
  using assms
  by (auto simp add: WmiService_ctor_def ComInitialize_ctor_def createInstance_cases Let_def
        logged_fields AddRef_fields
        split: prod.splits sum.splits if_splits)

lemma ctor_initialised:
  assumes "WmiService_ctor n w path = (Inr h, w')"
  shows "0 < com_inits w'"
  using assms
  by (auto simp add: WmiService_ctor_def ComInitialize_ctor_def createInstance_cases Let_def
        logged_fields AddRef_fields
        split: prod.splits sum.splits if_splits)

lemma copy_calls: "calls (snd (WmiService_copy n w s)) = calls w"
  by (simp add: WmiService_copy_def ComInitialize_ctor_def AddRef_fields split: prod.splits sum.splits)

lemma dtor_calls: "calls (WmiService_dtor w h) = calls w"
  by (simp add: WmiService_dtor_def dtor_fields Release_fields)

lemma assign_calls: "calls (snd (snd (operator_assign n w this s))) = calls w"
  by (simp add: operator_assign_def WmiService_copy_def ComInitialize_ctor_def AddRef_fields Let_def dtor_calls
       split: prod.splits sum.splits)

lemma unlogged_blanket_calls:
  "blanket_calls (snd (WmiService_copy n w s)) = blanket_calls w"
  "blanket_calls (snd (snd (operator_assign n w this s))) = blanket_calls w"
  "blanket_calls (WmiService_dtor w this) = blanket_calls w"
  by (simp_all add: blanket_calls_def copy_calls assign_calls dtor_calls)

lemma delete_path_blanket_calls:
  "blanket_calls (snd (delete_path n w this objPath context)) = blanket_calls w"
  by (simp add: delete_path_def blanket_calls_def Let_def logged_fields AddRef_fields Release_fields
        split: option.splits prod.splits)

text \<open>
  C4. A successful construction logs exactly three calls: the creation of the locator,
  the connect call, and right after it one \<open>CoSetProxyBlanket\<close> on the connection of
  the handle with the fixed arguments (Windows-native authentication, no authorisation
  service, no server principal name, call-level authentication, impersonation, no client
  identity, no capabilities). No other operation of the class sets a blanket.
\<close>

theorem security_context_fixed:
  assumes "WmiService_ctor n w path = (Inr h, w')"
  shows "(\<exists>hr1 hr2 hr3.
            calls w' = calls w @
              [(Call_createInstance, hr1),
               (Call_ConnectServer (wbemLocator h) (connect_arguments path), hr2),
               (Call_CoSetProxyBlanket (wbemServices h)
                  \<lparr>dwAuthnSvc = RPC_C_AUTHN_WINNT, dwAuthzSvc = RPC_C_AUTHZ_NONE, pServerPrincName = None,
                   dwAuthnLevel = RPC_C_AUTHN_LEVEL_CALL, dwImpLevel = RPC_C_IMP_LEVEL_IMPERSONATE,
                   pAuthInfo = None, dwCapabilities = EOAC_NONE\<rparr>, hr3)]
            \<and> \<not> FAILED hr2 \<and> \<not> FAILED hr3)
         \<and> length (blanket_calls w') = length (blanket_calls w) + 1
         \<and> blanket_calls (snd (delete_path n' v h' objPath context)) = blanket_calls v
         \<and> blanket_calls (snd (delete_path1 n' v h' objPath)) = blanket_calls v
         \<and> blanket_calls (snd (WmiService_copy n' v h')) = blanket_calls v
         \<and> blanket_calls (snd (snd (operator_assign n' v h' h''))) = blanket_calls v
         \<and> blanket_calls (WmiService_dtor v h') = blanket_calls v"
proof -
  from ctor_calls [OF assms] obtain hr1 hr2 hr3 where
    c: "calls w' = calls w @
             [(Call_createInstance, hr1),
              (Call_ConnectServer (wbemLocator h) (connect_arguments path), hr2),
              (Call_CoSetProxyBlanket (wbemServices h) blanket, hr3)]"
    and ok: "\<not> FAILED hr2" "\<not> FAILED hr3" by blast
  have 1: "length (blanket_calls w') = length (blanket_calls w) + 1"
    by (simp add: blanket_calls_def c)
  show ?thesis
    using c ok 1
    by (simp add: blanket_def delete_path_blanket_calls delete_path1_def unlogged_blanket_calls)
qed


theorem security_context_fixed_witness:
  "WmiService_ctor all_ok world0 ''root/cimv2'' = (Inr handle1, world1)
   \<and> length (blanket_calls world1) = 1
   \<and> blanket_calls (snd (delete_path all_ok world1 handle1 ''MyClass.MyProperty1=33'' None)) =
       blanket_calls world1"
  using construct_handle1
    security_context_fixed [OF construct_handle1, of all_ok world1 handle1 "''MyClass.MyProperty1=33''" None handle1]
  by (simp add: blanket_calls_def world0_def)

section \<open>Copy, assignment, equality\<close>

lemma copy_refused:
  assumes "WmiService_copy n w s = (Inl e, w1)"
  shows "w1 = w \<and> e = SubsystemInitError (CoInitializeEx n w) \<and> com_inits w = 0 \<and> FAILED (CoInitializeEx n w)"
  using assms
  by (auto simp add: WmiService_copy_def ComInitialize_ctor_def split: if_splits)

lemma copy_granted:
  assumes "WmiService_copy n w s = (Inr t, w1)"
  shows "t = \<lparr>coinit = \<lparr>serial = guards_made w\<rparr>, wbemLocator = wbemLocator s, wbemServices = wbemServices s\<rparr>
         \<and> w1 = AddRef (wbemServices s) (AddRef (wbemLocator s)
                  (w\<lparr>com_inits := com_inits w + 1, guards_made := guards_made w + 1\<rparr>))"
  using assms
  by (auto simp add: WmiService_copy_def ComInitialize_ctor_def split: if_splits)

text \<open>
  C5. When the construction of the temporary copy fails, the assignment fails with the
  same failure and the target is what it was. When the construction of the temporary
  succeeds, the assignment returns normally (the two exchanges cannot fail), the target
  holds the pointers of the temporary, which are those of the source, and the temporary
  is destroyed holding the former pointers of the target.
\<close>

theorem assignment_copy_then_swap:
  "(WmiService_copy n w service = (Inl e, w1) \<longrightarrow>
      operator_assign n w this service = (Inl e, this, w1))
   \<and> (WmiService_copy n w service = (Inr temp, w1) \<longrightarrow>
      operator_assign n w this service =
        (Inr (),
         this\<lparr>wbemLocator := wbemLocator temp, wbemServices := wbemServices temp\<rparr>,
         WmiService_dtor w1 (temp\<lparr>wbemLocator := wbemLocator this, wbemServices := wbemServices this\<rparr>))
      \<and> wbemLocator temp = wbemLocator service \<and> wbemServices temp = wbemServices service)"
  by (auto simp add: operator_assign_def swap_ptr_def Let_def dest: copy_granted)

lemma copy_refused_example:
  "WmiService_copy subsystem_refused world0 handle2 = (Inl (SubsystemInitError RPC_E_CHANGED_MODE), world0)"
  by (simp add: WmiService_copy_def ComInitialize_ctor_def subsystem_refused_def scripted_def world0_def FAILED_codes)

lemma copy_granted_example:
  "WmiService_copy all_ok world1 handle2 =
     (Inr \<lparr>coinit = \<lparr>serial = 1\<rparr>, wbemLocator = Some 3, wbemServices = Some 4\<rparr>,
      snd (WmiService_copy all_ok world1 handle2))"
  by (simp add: WmiService_copy_def ComInitialize_ctor_def all_ok_def scripted_def world1_def handle2_def)

theorem assignment_copy_then_swap_witness:
  "WmiService_copy subsystem_refused world0 handle2 = (Inl (SubsystemInitError RPC_E_CHANGED_MODE), world0)
   \<and> operator_assign subsystem_refused world0 handle1 handle2 =
       (Inl (SubsystemInitError RPC_E_CHANGED_MODE), handle1, world0)
   \<and> fst (operator_assign all_ok world1 handle1 handle2) = Inr ()
   \<and> fst (snd (operator_assign all_ok world1 handle1 handle2)) =
       \<lparr>coinit = \<lparr>serial = 0\<rparr>, wbemLocator = Some 3, wbemServices = Some 4\<rparr>"
  using copy_refused_example copy_granted_example
    assignment_copy_then_swap [where n = subsystem_refused and w = world0 and service = handle2
       and e = "SubsystemInitError RPC_E_CHANGED_MODE" and ?w1.0 = world0 and this = handle1]
    assignment_copy_then_swap [where n = all_ok and w = world1 and service = handle2 and this = handle1
       and temp = "\<lparr>coinit = \<lparr>serial = 1\<rparr>, wbemLocator = Some 3, wbemServices = Some 4\<rparr>"
       and ?w1.0 = "snd (WmiService_copy all_ok world1 handle2)"]
  by (simp add: handle1_def)

lemma construct_handle2:
  "WmiService_ctor all_ok world1 ''root/cimv2'' = (Inr handle2, snd (WmiService_ctor all_ok world1 ''root/cimv2''))"
  by (simp add: WmiService_ctor_def all_ok_def scripted_def handle2_def world1_def
        ComInitialize_ctor_def createInstance_def logged_def AddRef_def FAILED_def S_OK_def Let_def)

text \<open>
  C6. A copy of a handle is equal to the handle. Two handles are equal exactly when their
  locator pointers are the same address and their connection pointers are the same
  address; \<open>operator!=\<close> is the negation. Equality is identity: two handles constructed
  one after the other for the same namespace path can be unequal.
\<close>

theorem copy_equals_original:
  "(WmiService_copy n w h = (Inr h2, w') \<longrightarrow> operator_eq h2 h)
   \<and> (operator_eq a b \<longleftrightarrow> wbemLocator a = wbemLocator b \<and> wbemServices a = wbemServices b)
   \<and> (operator_ne a b \<longleftrightarrow> \<not> operator_eq a b)
   \<and> (\<exists>n0 w0 path h1 w1 h2 w2.
         WmiService_ctor n0 w0 path = (Inr h1, w1) \<and> WmiService_ctor n0 w1 path = (Inr h2, w2)
         \<and> \<not> operator_eq h1 h2 \<and> operator_ne h1 h2)"
proof -
  have "\<not> operator_eq handle1 handle2 \<and> operator_ne handle1 handle2"
    by (simp add: operator_eq_def operator_ne_def handle1_def handle2_def)
  with construct_handle1 construct_handle2
  have "\<exists>n0 w0 path h1 w1 h2 w2.
         WmiService_ctor n0 w0 path = (Inr h1, w1) \<and> WmiService_ctor n0 w1 path = (Inr h2, w2)
         \<and> \<not> operator_eq h1 h2 \<and> operator_ne h1 h2"
    by blast
  then show ?thesis
    by (auto simp add: operator_eq_def operator_ne_def dest: copy_granted)
qed

theorem copy_equals_original_witness:
  "WmiService_copy all_ok world1 handle2 =
     (Inr \<lparr>coinit = \<lparr>serial = 1\<rparr>, wbemLocator = Some 3, wbemServices = Some 4\<rparr>,
      snd (WmiService_copy all_ok world1 handle2))
   \<and> operator_eq \<lparr>coinit = \<lparr>serial = 1\<rparr>, wbemLocator = Some 3, wbemServices = Some 4\<rparr> handle2"
  using copy_granted_example
    copy_equals_original [where n = all_ok and w = world1 and h = handle2
       and ?h2.0 = "\<lparr>coinit = \<lparr>serial = 1\<rparr>, wbemLocator = Some 3, wbemServices = Some 4\<rparr>"
       and w' = "snd (WmiService_copy all_ok world1 handle2)"]
  by blast

lemma self_assign_world:
  assumes "0 < com_inits w"
  shows "operator_assign n w h h = (Inr (), h, w\<lparr>guards_made := guards_made w + 1\<rparr>)"
proof -
  have cp: "WmiService_copy n w h =
      (Inr \<lparr>coinit = \<lparr>serial = guards_made w\<rparr>, wbemLocator = wbemLocator h, wbemServices = wbemServices h\<rparr>,
       AddRef (wbemServices h) (AddRef (wbemLocator h)
          (w\<lparr>com_inits := com_inits w + 1, guards_made := guards_made w + 1\<rparr>)))"
    using assms by (simp add: WmiService_copy_def guard_idempotent)
  have undone: "WmiService_dtor (AddRef s (AddRef l (w\<lparr>com_inits := com_inits w + 1, guards_made := guards_made w + 1\<rparr>)))
                 \<lparr>coinit = g, wbemLocator = l, wbemServices = s\<rparr> = w\<lparr>guards_made := guards_made w + 1\<rparr>" for s l g
    by (simp add: WmiService_dtor_def Release_AddRef ComInitialize_dtor_def)
  show ?thesis
    using undone [of "wbemServices h" "wbemLocator h" "\<lparr>serial = guards_made w\<rparr>"]
    by (simp add: operator_assign_def cp swap_ptr_def Let_def)
qed

text \<open>
  C9. For a handle \<open>h\<close> as a successful construction yields it, \<open>h = h\<close> returns
  normally and leaves \<open>h\<close> as it was, so \<open>h\<close> is equal to what it was and gives
  access to the same connection. The world is as before, but for the serial number that
  the guard of the temporary has used up.
\<close>

theorem self_assignment_safe:
  assumes "WmiService_ctor n w0 path = (Inr h, w)"
  shows "operator_assign n w h h = (Inr (), h, w\<lparr>guards_made := guards_made w + 1\<rparr>)
         \<and> operator_eq (fst (snd (operator_assign n w h h))) h
         \<and> get (fst (snd (operator_assign n w h h))) = get h
         \<and> operator_arrow (fst (snd (operator_assign n w h h))) = operator_arrow h"
  using self_assign_world [OF ctor_initialised [OF assms], of n h]
  by (simp add: operator_eq_def)

theorem self_assignment_safe_witness:
  "WmiService_ctor all_ok world0 ''root/cimv2'' = (Inr handle1, world1)
   \<and> operator_assign all_ok world1 handle1 handle1 =
       (Inr (), handle1,
        \<lparr>refs = (\<lambda>a. 0)(0 := 1, 1 := 1), com_inits = 1, guards_made = 2, calls = calls world1\<rparr>)"
  using construct_handle1 self_assignment_safe [OF construct_handle1]
  by (simp add: world1_def)

text \<open>
  C10. Whatever the outcome of an assignment, the guard of the target is the guard it
  had before: only the locator and the connection are exchanged. The guard of the
  temporary is constructed and destroyed within the assignment, so the initialisation
  count of the thread is what it was. The source is read only.
\<close>

theorem assignment_keeps_guard:
  "coinit (fst (snd (operator_assign n w this service))) = coinit this
   \<and> com_inits (snd (snd (operator_assign n w this service))) = com_inits w"
  by (auto simp add: operator_assign_def WmiService_copy_def ComInitialize_ctor_def Let_def swap_ptr_def
        WmiService_dtor_def dtor_fields AddRef_fields Release_fields
        split: if_splits)

theorem assignment_keeps_guard_witness:
  "coinit (fst (snd (operator_assign all_ok world1 handle1 handle2))) = \<lparr>serial = 0\<rparr>
   \<and> com_inits (snd (snd (operator_assign all_ok world1 handle1 handle2))) = 1"
  using assignment_keeps_guard [of all_ok world1 handle1 handle2]
  by (simp add: handle1_def world1_def)

end
